theory Spec2Isabelle
  imports Main "HOL-Library.Word" "HOL-Library.Signed_Division"
begin

section \<open>The RTP/RTCP node of OvenMediaEngine\<close>

text \<open>
  A shallow embedding of \<^verbatim>\<open>modules/rtp_rtcp/rtp_rtcp.cpp\<close> (class \<^verbatim>\<open>RtpRtcp\<close>) and
  \<^verbatim>\<open>modules/rtp_rtcp/rtcp_info/rtcp_sr_generator.cpp\<close> (class \<^verbatim>\<open>RtcpSRGenerator\<close>).
  Member functions become functions that take the object and return the changed object.
  Classes whose code is elsewhere in the repository (the statistics entry, the jitter
  buffers, the packet parsers and builders, the neighbouring nodes) are parameters.
\<close>

type_synonym u8 = "8 word"
type_synonym u32 = "32 word"
type_synonym bytes = "u8 list"

subsection \<open>Packets\<close>

text \<open>
  What the node reads of an \<^verbatim>\<open>RtpPacket\<close>: \<^verbatim>\<open>PayloadType()\<close>, \<^verbatim>\<open>Ssrc()\<close>, \<^verbatim>\<open>Timestamp()\<close>,
  \<^verbatim>\<open>PayloadSize()\<close> and \<^verbatim>\<open>GetData()\<close>.
\<close>

record RtpPacket =
  PayloadType :: u8
  Ssrc :: u32
  Timestamp :: u32
  PayloadSize :: nat
  GetData :: bytes

text \<open>The fields \<^verbatim>\<open>AddRTPPacketAndGenerateRtcpSR\<close> sets on a \<^verbatim>\<open>SenderReport\<close> (lines 43-49).\<close>

record SenderReport =
  SenderSsrc :: u32
  Msw :: u32
  Lsw :: u32
  SrTimestamp :: u32
  PacketCount :: u32
  OctetCount :: u32

text \<open>
  The fields \<^verbatim>\<open>OnRtpReceived\<close> sets on a \<^verbatim>\<open>ReceiverReport\<close> (lines 262-265). The report
  block comes from the statistics entry; its type \<open>'rb\<close> is left open.
\<close>

record 'rb ReceiverReport =
  RtpPayloadType :: u8
  RrSenderSsrc :: u32
  ReportBlocks :: "'rb list"

text \<open>The fields \<^verbatim>\<open>SendFir\<close> sets on a \<^verbatim>\<open>FIR\<close> (lines 122-123).\<close>

record FIR =
  SrcSsrc :: u32
  FirMessages :: "(u32 \<times> u8) list"

text \<open>
  An \<^verbatim>\<open>RtcpInfo\<close> by its \<^verbatim>\<open>GetPacketType()\<close>: the three kinds the node builds, and any
  other kind the compound-packet parser may deliver (by its packet type octet).
\<close>

datatype 'rb RtcpInfo =
  SR SenderReport
| RR "'rb ReceiverReport"
| FIR_Info FIR
| OtherRtcpInfo u8

text \<open>
  An \<^verbatim>\<open>RtcpPacket\<close> after \<^verbatim>\<open>Build(info)\<close>: the info it was built from and \<^verbatim>\<open>GetData()\<close>,
  which stays null when \<^verbatim>\<open>Build\<close> fails.
\<close>

record 'rb RtcpPacket =
  BuiltFrom :: "'rb RtcpInfo"
  RtcpData :: "bytes option"

text \<open>
  \<^verbatim>\<open>RtcpPacket::Build\<close> is not in the two source files: its serialiser is the parameter
  \<open>serialise\<close>, \<open>None\<close> when \<^verbatim>\<open>Build\<close> returns false.
\<close>

definition Build :: "('rb RtcpInfo \<Rightarrow> bytes option) \<Rightarrow> 'rb RtcpInfo \<Rightarrow> bool \<times> 'rb RtcpPacket" where
  "Build serialise info =
     (serialise info \<noteq> None, \<lparr>BuiltFrom = info, RtcpData = serialise info\<rparr>)"

subsection \<open>The system clock\<close>

text \<open>
  A \<^verbatim>\<open>std::chrono::system_clock::time_point\<close> is a count of clock ticks, nanoseconds on
  the platform the engine is built for. The generator reads the clock at six places;
  each place has its own reading, so that a call that is not instantaneous is covered.
\<close>

type_synonym time_point = int

definition ticks_per_ms :: int where
  "ticks_per_ms = 1000000"

record system_clock =
  now_line8 :: time_point    \<comment> \<open>constructor, \<^verbatim>\<open>_created_time\<close>\<close>
  now_line9 :: time_point    \<comment> \<open>constructor, \<^verbatim>\<open>_last_generated_time\<close>\<close>
  now_line20a :: time_point  \<comment> \<open>\<^verbatim>\<open>GetElapsedTimeMSFromCreated()\<close> in line 20\<close>
  now_line20b :: time_point  \<comment> \<open>\<^verbatim>\<open>GetElapsedTimeMSFromRtcpSRGenerated()\<close> in line 20\<close>
  now_line21 :: time_point   \<comment> \<open>\<^verbatim>\<open>GetElapsedTimeMSFromRtcpSRGenerated()\<close> in line 21\<close>
  now_line57 :: time_point   \<comment> \<open>the new \<^verbatim>\<open>_last_generated_time\<close>\<close>

text \<open>A call so short that every reading is the same tick.\<close>

definition at_instant :: "time_point \<Rightarrow> system_clock" where
  "at_instant t =
     \<lparr>now_line8 = t, now_line9 = t, now_line20a = t, now_line20b = t, now_line21 = t,
      now_line57 = t\<rparr>"

text \<open>
  \<^verbatim>\<open>duration_cast<milliseconds>(now - since).count()\<close> returned as \<^verbatim>\<open>uint32_t\<close>: the
  division truncates towards zero and the conversion keeps the low 32 bits.
\<close>

definition elapsed_ms :: "time_point \<Rightarrow> time_point \<Rightarrow> u32" where
  "elapsed_ms since now = word_of_int ((now - since) sdiv ticks_per_ms)"

subsection \<open>RtcpSRGenerator\<close>

text \<open>
  The members of \<^verbatim>\<open>RtcpSRGenerator\<close>. The header is not among the source files: the
  counters are taken as 32 bits wide, the width of the Sender Report fields they are
  copied into.
\<close>

record 'rb RtcpSRGenerator =
  ssrc :: u32
  codec_rate :: u32
  created_time :: time_point
  last_generated_time :: time_point
  packet_count :: u32
  octec_count :: u32
  rtcp_generated_count :: u32
  rtcp_packet :: "'rb RtcpPacket option"

text \<open>
  The constructor (lines 4-10). The members it does not assign start at zero and null,
  as the uses of \<^verbatim>\<open>_packet_count++\<close> and \<^verbatim>\<open>_rtcp_packet != nullptr\<close> need.
\<close>

definition RtcpSRGenerator_new :: "system_clock \<Rightarrow> u32 \<Rightarrow> u32 \<Rightarrow> 'rb RtcpSRGenerator" where
  "RtcpSRGenerator_new clk s rate =
     \<lparr>ssrc = s, codec_rate = rate,
      created_time = now_line8 clk, last_generated_time = now_line9 clk,
      packet_count = 0, octec_count = 0, rtcp_generated_count = 0, rtcp_packet = None\<rparr>"

definition GetElapsedTimeMSFromCreated :: "'rb RtcpSRGenerator \<Rightarrow> time_point \<Rightarrow> u32" where
  "GetElapsedTimeMSFromCreated g now = elapsed_ms (created_time g) now"

definition GetElapsedTimeMSFromRtcpSRGenerated :: "'rb RtcpSRGenerator \<Rightarrow> time_point \<Rightarrow> u32" where
  "GetElapsedTimeMSFromRtcpSRGenerated g now = elapsed_ms (last_generated_time g) now"

text \<open>The condition of lines 20-21, with C++'s evaluation order of its three clock reads.\<close>

definition sr_is_due :: "system_clock \<Rightarrow> 'rb RtcpSRGenerator \<Rightarrow> bool" where
  "sr_is_due clk g =
     ((GetElapsedTimeMSFromCreated g (now_line20a clk) < 10000 \<and>
       GetElapsedTimeMSFromRtcpSRGenerated g (now_line20b clk) > 500) \<or>
      GetElapsedTimeMSFromRtcpSRGenerated g (now_line21 clk) > 4999)"

text \<open>
  The parts of the generator's surroundings that are not in the source files or are
  floating-point arithmetic: \<open>serialise\<close> stands for \<^verbatim>\<open>RtcpPacket::Build\<close>, and
  \<open>media_clock\<close> for lines 31-38, which turn the RTP timestamp and the codec rate into the
  pair (msw, lsw) through \<^verbatim>\<open>double\<close>.
\<close>

record 'rb sr_params =
  serialise :: "'rb RtcpInfo \<Rightarrow> bytes option"
  media_clock :: "u32 \<Rightarrow> u32 \<Rightarrow> u32 \<times> u32"

text \<open>\<^verbatim>\<open>AddRTPPacketAndGenerateRtcpSR\<close> (lines 12-60).\<close>

definition AddRTPPacketAndGenerateRtcpSR ::
  "'rb sr_params \<Rightarrow> system_clock \<Rightarrow> RtpPacket \<Rightarrow> 'rb RtcpSRGenerator \<Rightarrow> 'rb RtcpSRGenerator"
where
  "AddRTPPacketAndGenerateRtcpSR par clk rtp_packet g =
     (let g1 = g\<lparr>packet_count := packet_count g + 1,
                 octec_count := octec_count g + of_nat (PayloadSize rtp_packet)\<rparr>
      in if sr_is_due clk g1
         then
           let (msw, lsw) = media_clock par (Timestamp rtp_packet) (codec_rate g1);
               report = \<lparr>SenderSsrc = ssrc g1, Msw = msw, Lsw = lsw,
                         SrTimestamp = Timestamp rtp_packet,
                         PacketCount = packet_count g1,
                         OctetCount = octec_count g1\<rparr>
           in g1\<lparr>rtcp_packet := Some (snd (Build (serialise par) (SR report))),
                 packet_count := 0,
                 octec_count := 0,
                 last_generated_time := now_line57 clk,
                 rtcp_generated_count := rtcp_generated_count g1 + 1\<rparr>
         else g1)"

definition IsAvailableRtcpSRPacket :: "'rb RtcpSRGenerator \<Rightarrow> bool" where
  "IsAvailableRtcpSRPacket g = (rtcp_packet g \<noteq> None)"

text \<open>
  \<^verbatim>\<open>PopRtcpSRPacket\<close> (lines 67-75): returning \<^verbatim>\<open>std::move(_rtcp_packet)\<close> leaves the member
  null.
\<close>

definition PopRtcpSRPacket :: "'rb RtcpSRGenerator \<Rightarrow> 'rb RtcpPacket option \<times> 'rb RtcpSRGenerator" where
  "PopRtcpSRPacket g =
     (case rtcp_packet g of
        None \<Rightarrow> (None, g)
      | Some p \<Rightarrow> (Some p, g\<lparr>rtcp_packet := None\<rparr>))"

text \<open>A run of the generator: one \<^verbatim>\<open>AddRTPPacketAndGenerateRtcpSR\<close> call per list element.\<close>

fun observe_all ::
  "'rb sr_params \<Rightarrow> (system_clock \<times> RtpPacket) list \<Rightarrow> 'rb RtcpSRGenerator \<Rightarrow> 'rb RtcpSRGenerator"
where
  "observe_all par [] g = g"
| "observe_all par ((clk, p) # rest) g =
     observe_all par rest (AddRTPPacketAndGenerateRtcpSR par clk p g)"

subsection \<open>The node and its surroundings\<close>

text \<open>
  Modelled from the spec: the lifecycle states of \<^verbatim>\<open>ov::Node\<close> (its header is not among the
  source files) are Created, Ready, Started and Stopped. The source compares the state
  with Ready and with Started only.
\<close>

datatype NodeState = Created | Ready | Started | Stopped

text \<open>The two \<^verbatim>\<open>NodeType\<close> values the node sends as; every other enumerator is \<open>OtherNode\<close>.\<close>

datatype NodeType = Rtp | Rtcp | OtherNode

text \<open>
  \<^verbatim>\<open>cmn::BitstreamFormat\<close>: the four enumerators the two \<^verbatim>\<open>switch\<close> statements name. Every
  other enumerator takes the \<^verbatim>\<open>default\<close> branch; the argument tells them apart.
\<close>

datatype BitstreamFormat =
  H264_RTP_RFC_6184
| VP8_RTP_RFC_7741
| AAC_MPEG4_GENERIC
| OPUS_RTP_RFC_7587
| OtherBitstreamFormat nat

text \<open>What the node reads of a \<^verbatim>\<open>MediaTrack\<close>: \<^verbatim>\<open>GetOriginBitstream()\<close> and \<^verbatim>\<open>GetTimeBase().GetDen()\<close>.\<close>

record MediaTrack =
  GetOriginBitstream :: BitstreamFormat
  GetTimeBaseDen :: int

text \<open>
  What a call does to its surroundings, in program order: a byte of the inbound datagram
  read through \<^verbatim>\<open>GetDataAs<uint8_t>()[i]\<close>, data handed to the node below, and the two
  notifications of the observer above.
\<close>

datatype 'rb event =
  DatagramByteRead nat
| Sent NodeType "bytes option"
| OnRtpFrameReceived_event "RtpPacket list"
| OnRtcpReceived_event "'rb RtcpInfo"

text \<open>Undefined behaviour of the C++ is a value of its own, never a result.\<close>

datatype fault = NullPointerDereference | OutOfBoundsRead

text \<open>
  The members of \<^verbatim>\<open>RtpRtcp\<close>. \<open>observer\<close> tells whether \<^verbatim>\<open>_observer\<close> is non-null and
  \<open>trace\<close> collects the events of all calls so far. The statistics entries \<open>'s\<close> and the
  two kinds of jitter buffer \<open>'f\<close> and \<open>'m\<close> are classes outside the source files.
\<close>

record ('s, 'f, 'm, 'rb) RtpRtcp =
  node_state :: NodeState
  observer :: bool
  rtcp_sr_generators :: "u8 \<rightharpoonup> 'rb RtcpSRGenerator"
  tracks :: "u8 \<rightharpoonup> MediaTrack"
  rtp_frame_jitter_buffers :: "u8 \<rightharpoonup> 'f"
  rtp_minimal_jitter_buffers :: "u8 \<rightharpoonup> 'm"
  receive_statistics :: "u32 \<rightharpoonup> 's"
  last_sent_rtp_packet :: "RtpPacket option"
  last_sent_rtcp_packet :: "'rb RtcpPacket option"
  trace :: "'rb event list"

text \<open>
  The member functions of \<^verbatim>\<open>RtpReceiveStatistics\<close> the node calls, as parameters.
  \<^verbatim>\<open>GenerateReportBlock\<close> may change the entry, so it returns it.
\<close>

record ('s, 'rb) stat_ops =
  new_statistics :: "u8 \<Rightarrow> u32 \<Rightarrow> int \<Rightarrow> 's"
  AddReceivedRtpPacket :: "RtpPacket \<Rightarrow> 's \<Rightarrow> 's"
  HasElapsedSinceLastReportBlock :: "nat \<Rightarrow> 's \<Rightarrow> bool"
  GenerateReportBlock :: "'s \<Rightarrow> 'rb \<times> 's"
  GetReceiverSSRC :: "'s \<Rightarrow> u32"
  GetNumberOfFirRequests :: "'s \<Rightarrow> nat"
  OnFirRequested :: "'s \<Rightarrow> 's"
  GetPayloadType :: "'s \<Rightarrow> u8"
  AddReceivedRtcpSenderReport :: "SenderReport \<Rightarrow> 's \<Rightarrow> 's"

text \<open>
  The two jitter buffer classes, as parameters. A popped frame is the list of packets
  that \<^verbatim>\<open>GetFirstRtpPacket()\<close> and then \<^verbatim>\<open>GetNextRtpPacket()\<close> yield until null, so the
  empty list is a frame whose first packet is null.
\<close>

record ('f, 'm) jitter_ops =
  new_RtpFrameJitterBuffer :: "'f"
  new_RtpMinimalJitterBuffer :: "'m"
  frame_InsertPacket :: "RtpPacket \<Rightarrow> 'f \<Rightarrow> 'f"
  PopAvailableFrame :: "'f \<Rightarrow> RtpPacket list option \<times> 'f"
  minimal_InsertPacket :: "RtpPacket \<Rightarrow> 'm \<Rightarrow> 'm"
  PopAvailablePacket :: "'m \<Rightarrow> RtpPacket option \<times> 'm"

text \<open>
  Everything a call takes from outside the two source files: the macros
  \<^verbatim>\<open>RTCP_HEADER_SIZE\<close> and \<^verbatim>\<open>RECEIVER_REPORT_CYCLE_MS\<close>, the clock, the collaborators, the
  \<^verbatim>\<open>RtpPacket\<close> constructor (\<open>parse_rtp\<close>), \<^verbatim>\<open>RtcpReceiver::ParseCompoundPacket\<close> with the
  infos it then hands out (\<open>None\<close> when it returns false), and the answer of the node
  below to a send, which may depend on everything that happened so far.
\<close>

record ('s, 'f, 'm, 'rb) environment =
  RTCP_HEADER_SIZE :: nat
  RECEIVER_REPORT_CYCLE_MS :: nat
  clock :: system_clock
  sr :: "'rb sr_params"
  stats :: "('s, 'rb) stat_ops"
  jitter :: "('f, 'm) jitter_ops"
  parse_rtp :: "bytes \<Rightarrow> RtpPacket"
  ParseCompoundPacket :: "bytes \<Rightarrow> 'rb RtcpInfo list option"
  next_node :: "'rb event list \<Rightarrow> bool"

text \<open>\<^verbatim>\<open>Node::SendDataToNextNode\<close>: the send is recorded and the node below answers.\<close>

definition SendDataToNextNode ::
  "('s, 'f, 'm, 'rb) environment \<Rightarrow> NodeType \<Rightarrow> bytes option \<Rightarrow> ('s, 'f, 'm, 'rb) RtpRtcp
     \<Rightarrow> bool \<times> ('s, 'f, 'm, 'rb) RtpRtcp"
where
  "SendDataToNextNode env to_node data n =
     (let tr = trace n @ [Sent to_node data] in (next_node env tr, n\<lparr>trace := tr\<rparr>))"

text \<open>
  Modelled from the spec: \<^verbatim>\<open>Node::Start\<close> and \<^verbatim>\<open>Node::Stop\<close> are not among the source files.
  Start takes Ready to Started; Stop takes any state to Stopped.
\<close>

definition Node_Start :: "('s, 'f, 'm, 'rb) RtpRtcp \<Rightarrow> bool \<times> ('s, 'f, 'm, 'rb) RtpRtcp" where
  "Node_Start n = (if node_state n = Ready then (True, n\<lparr>node_state := Started\<rparr>) else (False, n))"

definition Node_Stop :: "('s, 'f, 'm, 'rb) RtpRtcp \<Rightarrow> bool \<times> ('s, 'f, 'm, 'rb) RtpRtcp" where
  "Node_Stop n = (True, n\<lparr>node_state := Stopped\<rparr>)"

subsection \<open>Registration and lifecycle\<close>

text \<open>\<^verbatim>\<open>RtpRtcp::AddRtcpSRGenerator\<close> (lines 23-34).\<close>

definition AddRtcpSRGenerator ::
  "('s, 'f, 'm, 'rb) environment \<Rightarrow> u8 \<Rightarrow> u32 \<Rightarrow> u32 \<Rightarrow> ('s, 'f, 'm, 'rb) RtpRtcp
     \<Rightarrow> bool \<times> ('s, 'f, 'm, 'rb) RtpRtcp"
where
  "AddRtcpSRGenerator env payload_type s rate n =
     (if node_state n \<noteq> Ready then (False, n)
      else (True, n\<lparr>rtcp_sr_generators :=
                       (rtcp_sr_generators n)(payload_type \<mapsto> RtcpSRGenerator_new (clock env) s rate)\<rparr>))"

text \<open>\<^verbatim>\<open>RtpRtcp::AddRtpReceiver\<close> (lines 36-63): the track is stored before the \<^verbatim>\<open>switch\<close>.\<close>

definition AddRtpReceiver ::
  "('s, 'f, 'm, 'rb) environment \<Rightarrow> u8 \<Rightarrow> MediaTrack \<Rightarrow> ('s, 'f, 'm, 'rb) RtpRtcp
     \<Rightarrow> bool \<times> ('s, 'f, 'm, 'rb) RtpRtcp"
where
  "AddRtpReceiver env payload_type track n =
     (if node_state n \<noteq> Ready then (False, n)
      else
        let n1 = n\<lparr>tracks := (tracks n)(payload_type \<mapsto> track)\<rparr>;
            with_frame_buffer = n1\<lparr>rtp_frame_jitter_buffers :=
              (rtp_frame_jitter_buffers n1)(payload_type \<mapsto> new_RtpFrameJitterBuffer (jitter env))\<rparr>;
            with_minimal_buffer = n1\<lparr>rtp_minimal_jitter_buffers :=
              (rtp_minimal_jitter_buffers n1)(payload_type \<mapsto> new_RtpMinimalJitterBuffer (jitter env))\<rparr>
        in case GetOriginBitstream track of
             H264_RTP_RFC_6184 \<Rightarrow> (True, with_frame_buffer)
           | VP8_RTP_RFC_7741 \<Rightarrow> (True, with_frame_buffer)
           | AAC_MPEG4_GENERIC \<Rightarrow> (True, with_frame_buffer)
           | OPUS_RTP_RFC_7587 \<Rightarrow> (True, with_minimal_buffer)
           | OtherBitstreamFormat _ \<Rightarrow> (False, n1))"

text \<open>\<^verbatim>\<open>RtpRtcp::Stop\<close> (lines 65-72): the observer is released, then \<^verbatim>\<open>Node::Stop\<close>.\<close>

definition Stop :: "('s, 'f, 'm, 'rb) RtpRtcp \<Rightarrow> bool \<times> ('s, 'f, 'm, 'rb) RtpRtcp" where
  "Stop n = Node_Stop (n\<lparr>observer := False\<rparr>)"

subsection \<open>Sending\<close>

text \<open>
  \<^verbatim>\<open>RtpRtcp::SendRtpPacket\<close> (lines 74-107). The generator in the table is the object the
  call changes. \<^verbatim>\<open>rtcp_sr_packet->GetData()\<close> on a null pointer would be a fault. After a
  send of the report that succeeded, the log statement of line 100 evaluates
  \<^verbatim>\<open>rtcp_sr_packet->GetData()->GetLength()\<close>: a fault when \<^verbatim>\<open>Build\<close> left \<^verbatim>\<open>GetData()\<close>
  null. The log statement of line 96, after a send that failed, reads the RTP packet only.
\<close>

definition SendRtpPacket ::
  "('s, 'f, 'm, 'rb) environment \<Rightarrow> RtpPacket \<Rightarrow> ('s, 'f, 'm, 'rb) RtpRtcp
     \<Rightarrow> fault + bool \<times> ('s, 'f, 'm, 'rb) RtpRtcp"
where
  "SendRtpPacket env rtp_packet n =
     (if node_state n \<noteq> Started then Inr (False, n)
      else
        let after_sr =
          (case rtcp_sr_generators n (PayloadType rtp_packet) of
             None \<Rightarrow> Inr n
           | Some rtcp_sr_generator \<Rightarrow>
               let g1 = AddRTPPacketAndGenerateRtcpSR (sr env) (clock env) rtp_packet rtcp_sr_generator
               in if IsAvailableRtcpSRPacket g1
                  then
                    let (rtcp_sr_packet, g2) = PopRtcpSRPacket g1;
                        n1 = n\<lparr>rtcp_sr_generators :=
                                  (rtcp_sr_generators n)(PayloadType rtp_packet \<mapsto> g2),
                               last_sent_rtcp_packet := rtcp_sr_packet\<rparr>
                    in case rtcp_sr_packet of
                         None \<Rightarrow> Inl NullPointerDereference
                       | Some p \<Rightarrow>
                           let (sent, n2) = SendDataToNextNode env Rtcp (RtcpData p) n1
                           in if sent = False then Inr n2
                              else (case RtcpData p of
                                      None \<Rightarrow> Inl NullPointerDereference
                                    | Some d \<Rightarrow> Inr n2)
                  else Inr (n\<lparr>rtcp_sr_generators :=
                                  (rtcp_sr_generators n)(PayloadType rtp_packet \<mapsto> g1)\<rparr>))
        in case after_sr of
             Inl f \<Rightarrow> Inl f
           | Inr n2 \<Rightarrow>
               Inr (SendDataToNextNode env Rtp (Some (GetData rtp_packet))
                      (n2\<lparr>last_sent_rtp_packet := Some rtp_packet\<rparr>)))"

text \<open>\<^verbatim>\<open>RtpRtcp::SendFir\<close> (lines 109-132). The function does not look at the node state.\<close>

definition SendFir ::
  "('s, 'f, 'm, 'rb) environment \<Rightarrow> u32 \<Rightarrow> ('s, 'f, 'm, 'rb) RtpRtcp
     \<Rightarrow> bool \<times> ('s, 'f, 'm, 'rb) RtpRtcp"
where
  "SendFir env media_ssrc n =
     (case receive_statistics n media_ssrc of
        None \<Rightarrow> (False, n)
      | Some stat \<Rightarrow>
          let fir = \<lparr>SrcSsrc = GetReceiverSSRC (stats env) stat,
                     FirMessages =
                       [(media_ssrc, of_nat (GetNumberOfFirRequests (stats env) stat mod 256))]\<rparr>;
              rtcp_packet = snd (Build (serialise (sr env)) (FIR_Info fir));
              stat1 = OnFirRequested (stats env) stat;
              n1 = n\<lparr>receive_statistics := (receive_statistics n)(media_ssrc \<mapsto> stat1),
                     last_sent_rtcp_packet := Some rtcp_packet\<rparr>
          in SendDataToNextNode env Rtcp (RtcpData rtcp_packet) n1)"

text \<open>\<^verbatim>\<open>RtpRtcp::GetReceivedPayloadType\<close> (lines 134-143).\<close>

definition GetReceivedPayloadType ::
  "('s, 'f, 'm, 'rb) environment \<Rightarrow> u32 \<Rightarrow> ('s, 'f, 'm, 'rb) RtpRtcp \<Rightarrow> u8"
where
  "GetReceivedPayloadType env s n =
     (case receive_statistics n s of
        None \<Rightarrow> 0
      | Some stat \<Rightarrow> GetPayloadType (stats env) stat)"

text \<open>\<^verbatim>\<open>RtpRtcp::OnDataReceivedFromPrevNode\<close> (lines 146-163).\<close>

definition OnDataReceivedFromPrevNode ::
  "('s, 'f, 'm, 'rb) environment \<Rightarrow> NodeType \<Rightarrow> bytes \<Rightarrow> ('s, 'f, 'm, 'rb) RtpRtcp
     \<Rightarrow> bool \<times> ('s, 'f, 'm, 'rb) RtpRtcp"
where
  "OnDataReceivedFromPrevNode env from_node data n =
     (if node_state n \<noteq> Started then (False, n)
      else
        let (ok, n1) = SendDataToNextNode env from_node (Some data) n
        in if ok = False then (False, n1) else (True, n1))"

subsection \<open>Receiving\<close>

text \<open>
  Lines 244-273 of \<^verbatim>\<open>OnRtpReceived\<close>: the entry of the packet's SSRC is created when the
  table has none, the packet is added to it and, when the entry says the report interval
  has elapsed, a Receiver Report is built and sent. The result of that send is dropped.
\<close>

definition update_statistics_and_report ::
  "('s, 'f, 'm, 'rb) environment \<Rightarrow> RtpPacket \<Rightarrow> MediaTrack \<Rightarrow> ('s, 'f, 'm, 'rb) RtpRtcp
     \<Rightarrow> ('s, 'f, 'm, 'rb) RtpRtcp"
where
  "update_statistics_and_report env packet track n =
     (let stat0 =
           (case receive_statistics n (Ssrc packet) of
              None \<Rightarrow> new_statistics (stats env) (PayloadType packet) (Ssrc packet)
                        (GetTimeBaseDen track)
            | Some stat \<Rightarrow> stat);
          stat1 = AddReceivedRtpPacket (stats env) packet stat0
      in if HasElapsedSinceLastReportBlock (stats env) (RECEIVER_REPORT_CYCLE_MS env) stat1
         then
           let sender = GetReceiverSSRC (stats env) stat1;
               (block, stat2) = GenerateReportBlock (stats env) stat1;
               report = \<lparr>RtpPayloadType = PayloadType packet, RrSenderSsrc = sender,
                         ReportBlocks = [block]\<rparr>;
               (built, rtcp_packet) = Build (serialise (sr env)) (RR report);
               n1 = n\<lparr>receive_statistics := (receive_statistics n)(Ssrc packet \<mapsto> stat2)\<rparr>
           in if built
              then snd (SendDataToNextNode env Rtcp (RtcpData rtcp_packet)
                          (n1\<lparr>last_sent_rtcp_packet := Some rtcp_packet\<rparr>))
              else n1
         else n\<lparr>receive_statistics := (receive_statistics n)(Ssrc packet \<mapsto> stat1)\<rparr>)"

text \<open>Lines 275-288: the jitter buffer type of a bitstream format.\<close>

definition jitter_buffer_type :: "BitstreamFormat \<Rightarrow> int" where
  "jitter_buffer_type format =
     (case format of
        H264_RTP_RFC_6184 \<Rightarrow> 1
      | VP8_RTP_RFC_7741 \<Rightarrow> 1
      | AAC_MPEG4_GENERIC \<Rightarrow> 1
      | OPUS_RTP_RFC_7587 \<Rightarrow> 2
      | OtherBitstreamFormat _ \<Rightarrow> 0)"

text \<open>
  \<^verbatim>\<open>RtpRtcp::OnRtpReceived\<close> (lines 231-361). The log statement of line 313 and the call of
  line 352 go through a null pointer when the frame has no first packet and when the
  observer is null.
\<close>

definition OnRtpReceived ::
  "('s, 'f, 'm, 'rb) environment \<Rightarrow> bytes \<Rightarrow> ('s, 'f, 'm, 'rb) RtpRtcp
     \<Rightarrow> fault + bool \<times> ('s, 'f, 'm, 'rb) RtpRtcp"
where
  "OnRtpReceived env data n =
     (let packet = parse_rtp env data
      in case tracks n (PayloadType packet) of
           None \<Rightarrow> Inr (False, n)
         | Some track \<Rightarrow>
             let n1 = update_statistics_and_report env packet track n;
                 kind = jitter_buffer_type (GetOriginBitstream track)
             in if kind = 1
                then
                  (case rtp_frame_jitter_buffers n1 (PayloadType packet) of
                     None \<Rightarrow> Inr (False, n1)
                   | Some jitter_buffer \<Rightarrow>
                       let (frame, jb) =
                             PopAvailableFrame (jitter env)
                               (frame_InsertPacket (jitter env) packet jitter_buffer);
                           n2 = n1\<lparr>rtp_frame_jitter_buffers :=
                                     (rtp_frame_jitter_buffers n1)(PayloadType packet \<mapsto> jb)\<rparr>
                       in (case frame of
                             None \<Rightarrow> Inr (True, n2)
                           | Some rtp_packets \<Rightarrow>
                               if observer n2
                               then if rtp_packets = [] then Inl NullPointerDereference
                                    else Inr (True, n2\<lparr>trace := trace n2 @
                                                 [OnRtpFrameReceived_event rtp_packets]\<rparr>)
                               else Inr (True, n2)))
                else if kind = 2
                then
                  (case rtp_minimal_jitter_buffers n1 (PayloadType packet) of
                     None \<Rightarrow> Inr (False, n1)
                   | Some jitter_buffer \<Rightarrow>
                       let (pop_packet, jb) =
                             PopAvailablePacket (jitter env)
                               (minimal_InsertPacket (jitter env) packet jitter_buffer);
                           n2 = n1\<lparr>rtp_minimal_jitter_buffers :=
                                     (rtp_minimal_jitter_buffers n1)(PayloadType packet \<mapsto> jb)\<rparr>
                       in (case pop_packet of
                             None \<Rightarrow> Inr (True, n2)
                           | Some p \<Rightarrow>
                               if observer n2
                               then Inr (True, n2\<lparr>trace := trace n2 @
                                                 [OnRtpFrameReceived_event [p]]\<rparr>)
                               else Inl NullPointerDereference))
                else Inr (True, n1))"

text \<open>The body of the loop of \<^verbatim>\<open>OnRtcpReceived\<close> (lines 375-391), for one info.\<close>

definition handle_rtcp_info ::
  "('s, 'f, 'm, 'rb) environment \<Rightarrow> ('s, 'f, 'm, 'rb) RtpRtcp \<Rightarrow> 'rb RtcpInfo
     \<Rightarrow> ('s, 'f, 'm, 'rb) RtpRtcp"
where
  "handle_rtcp_info env n info =
     (let n1 =
           (case info of
              SR report \<Rightarrow>
                (case receive_statistics n (SenderSsrc report) of
                   None \<Rightarrow> n
                 | Some stat \<Rightarrow>
                     n\<lparr>receive_statistics := (receive_statistics n)
                         (SenderSsrc report \<mapsto> AddReceivedRtcpSenderReport (stats env) report stat)\<rparr>)
            | _ \<Rightarrow> n)
      in if observer n1 then n1\<lparr>trace := trace n1 @ [OnRtcpReceived_event info]\<rparr> else n1)"

text \<open>\<^verbatim>\<open>RtpRtcp::OnRtcpReceived\<close> (lines 363-395): the loop drains the parsed infos in order.\<close>

definition OnRtcpReceived ::
  "('s, 'f, 'm, 'rb) environment \<Rightarrow> bytes \<Rightarrow> ('s, 'f, 'm, 'rb) RtpRtcp
     \<Rightarrow> fault + bool \<times> ('s, 'f, 'm, 'rb) RtpRtcp"
where
  "OnRtcpReceived env data n =
     (case ParseCompoundPacket env data of
        None \<Rightarrow> Inr (False, n)
      | Some infos \<Rightarrow> Inr (True, foldl (handle_rtcp_info env) n infos))"

text \<open>\<^verbatim>\<open>data->GetDataAs<uint8_t>()[i]\<close>: the read is recorded; past the end it is a fault.\<close>

definition GetDataAs ::
  "bytes \<Rightarrow> nat \<Rightarrow> ('s, 'f, 'm, 'rb) RtpRtcp \<Rightarrow> fault + u8 \<times> ('s, 'f, 'm, 'rb) RtpRtcp"
where
  "GetDataAs data i n =
     (if i < length data then Inr (data ! i, n\<lparr>trace := trace n @ [DatagramByteRead i]\<rparr>)
      else Inl OutOfBoundsRead)"

text \<open>
  Where \<^verbatim>\<open>OnDataReceivedFromNextNode\<close> sends a datagram: the decisions of lines 177-226
  without the two handlers.
\<close>

datatype route = To_OnRtcpReceived | To_OnRtpReceived | Refused

definition classify ::
  "('s, 'f, 'm, 'rb) environment \<Rightarrow> bytes \<Rightarrow> ('s, 'f, 'm, 'rb) RtpRtcp
     \<Rightarrow> fault + route \<times> ('s, 'f, 'm, 'rb) RtpRtcp"
where
  "classify env data n =
     (if node_state n \<noteq> Started then Inr (Refused, n)
      else if length data < RTCP_HEADER_SIZE env then Inr (Refused, n)
      else
        case GetDataAs data 0 n of
          Inl f \<Rightarrow> Inl f
        | Inr (first_byte, n1) \<Rightarrow>
            if first_byte \<ge> 128 \<and> first_byte \<le> 191
            then
              (case GetDataAs data 1 n1 of
                 Inl f \<Rightarrow> Inl f
               | Inr (payload_type, n2) \<Rightarrow>
                   if payload_type \<ge> 192 \<and> payload_type \<le> 223
                   then Inr (To_OnRtcpReceived, n2)
                   else Inr (To_OnRtpReceived, n2))
            else Inr (Refused, n1))"

text \<open>
  \<^verbatim>\<open>RtpRtcp::OnDataReceivedFromNextNode\<close> (lines 168-229): each \<^verbatim>\<open>return\<close> of the function,
  with the handler calls of lines 214 and 219 in place.
\<close>

definition OnDataReceivedFromNextNode ::
  "('s, 'f, 'm, 'rb) environment \<Rightarrow> NodeType \<Rightarrow> bytes \<Rightarrow> ('s, 'f, 'm, 'rb) RtpRtcp
     \<Rightarrow> fault + bool \<times> ('s, 'f, 'm, 'rb) RtpRtcp"
where
  "OnDataReceivedFromNextNode env from_node data n =
     (case classify env data n of
        Inl f \<Rightarrow> Inl f
      | Inr (To_OnRtcpReceived, n1) \<Rightarrow> OnRtcpReceived env data n1
      | Inr (To_OnRtpReceived, n1) \<Rightarrow> OnRtpReceived env data n1
      | Inr (Refused, n1) \<Rightarrow> Inr (False, n1))"

subsection \<open>Reading what a call left behind\<close>

text \<open>The Sender Report waiting in the generator's slot, when there is one.\<close>

definition pending_sender_report :: "'rb RtcpSRGenerator \<Rightarrow> SenderReport option" where
  "pending_sender_report g =
     (case rtcp_packet g of
        None \<Rightarrow> None
      | Some p \<Rightarrow> (case BuiltFrom p of SR report \<Rightarrow> Some report | _ \<Rightarrow> None))"

text \<open>The FIR messages of the packet \<^verbatim>\<open>GetLastSentRtcpPacket()\<close> returns, when it is a FIR.\<close>

definition last_sent_fir_messages :: "('s, 'f, 'm, 'rb) RtpRtcp \<Rightarrow> (u32 \<times> u8) list" where
  "last_sent_fir_messages n =
     (case last_sent_rtcp_packet n of
        None \<Rightarrow> []
      | Some p \<Rightarrow> (case BuiltFrom p of FIR_Info fir \<Rightarrow> FirMessages fir | _ \<Rightarrow> []))"

text \<open>The route alone, of a result of \<open>classify\<close>.\<close>

definition route_of :: "fault + route \<times> 'n \<Rightarrow> fault + route" where
  "route_of r = (case r of Inl f \<Rightarrow> Inl f | Inr (way, _) \<Rightarrow> Inr way)"

text \<open>\<open>k\<close> calls of \<^verbatim>\<open>SendFir\<close> for the same SSRC, one after the other.\<close>

fun SendFir_times ::
  "nat \<Rightarrow> ('s, 'f, 'm, 'rb) environment \<Rightarrow> u32 \<Rightarrow> ('s, 'f, 'm, 'rb) RtpRtcp
     \<Rightarrow> ('s, 'f, 'm, 'rb) RtpRtcp"
where
  "SendFir_times 0 env media_ssrc n = n"
| "SendFir_times (Suc k) env media_ssrc n =
     SendFir_times k env media_ssrc (snd (SendFir env media_ssrc n))"

subsection \<open>A concrete node for evaluation\<close>

text \<open>
  One choice for every parameter, to run the operations on concrete inputs: a statistics
  entry that counts, jitter buffers that hand back what they were given, a header parser
  that takes the payload type from the low seven bits of the second octet, a node below
  that answers \<open>accepted\<close> to every send, and an entry whose report is due when \<open>rr_due\<close>.
\<close>

record example_stat =
  es_payload_type :: u8
  es_media_ssrc :: u32
  es_clock_rate :: int
  es_packets :: nat
  es_fir_requests :: nat
  es_sender_reports :: nat

definition example_stats :: "bool \<Rightarrow> (example_stat, nat) stat_ops" where
  "example_stats rr_due =
     \<lparr>new_statistics = (\<lambda>pt s den.
        \<lparr>es_payload_type = pt, es_media_ssrc = s, es_clock_rate = den, es_packets = 0,
         es_fir_requests = 0, es_sender_reports = 0\<rparr>),
      AddReceivedRtpPacket = (\<lambda>p st. st\<lparr>es_packets := es_packets st + 1\<rparr>),
      HasElapsedSinceLastReportBlock = (\<lambda>ms st. rr_due),
      GenerateReportBlock = (\<lambda>st. (es_packets st, st)),
      GetReceiverSSRC = (\<lambda>st. 1),
      GetNumberOfFirRequests = es_fir_requests,
      OnFirRequested = (\<lambda>st. st\<lparr>es_fir_requests := es_fir_requests st + 1\<rparr>),
      GetPayloadType = es_payload_type,
      AddReceivedRtcpSenderReport = (\<lambda>report st. st\<lparr>es_sender_reports := es_sender_reports st + 1\<rparr>)\<rparr>"

definition example_jitter :: "(RtpPacket list, RtpPacket list) jitter_ops" where
  "example_jitter =
     \<lparr>new_RtpFrameJitterBuffer = [],
      new_RtpMinimalJitterBuffer = [],
      frame_InsertPacket = (\<lambda>p jb. jb @ [p]),
      PopAvailableFrame = (\<lambda>jb. if jb = [] then (None, jb) else (Some jb, [])),
      minimal_InsertPacket = (\<lambda>p jb. jb @ [p]),
      PopAvailablePacket = (\<lambda>jb. case jb of [] \<Rightarrow> (None, []) | p # rest \<Rightarrow> (Some p, rest))\<rparr>"

definition example_parse_rtp :: "bytes \<Rightarrow> RtpPacket" where
  "example_parse_rtp data =
     \<lparr>PayloadType = (case data of b0 # b1 # _ \<Rightarrow> take_bit 7 b1 | _ \<Rightarrow> 0),
      Ssrc = 7, Timestamp = 0, PayloadSize = length data - 12, GetData = data\<rparr>"

definition example_sr_params :: "nat sr_params" where
  "example_sr_params = \<lparr>serialise = (\<lambda>info. Some []), media_clock = (\<lambda>ts rate. (0, 0))\<rparr>"

definition example_env ::
  "time_point \<Rightarrow> bool \<Rightarrow> bool \<Rightarrow> (example_stat, RtpPacket list, RtpPacket list, nat) environment"
where
  "example_env t rr_due accepted =
     \<lparr>RTCP_HEADER_SIZE = 4,
      RECEIVER_REPORT_CYCLE_MS = 1000,
      clock = at_instant t,
      sr = example_sr_params,
      stats = example_stats rr_due,
      jitter = example_jitter,
      parse_rtp = example_parse_rtp,
      ParseCompoundPacket = (\<lambda>data. Some []),
      next_node = (\<lambda>tr. accepted)\<rparr>"

text \<open>A node as registration finds it: Ready, with an observer and nothing registered.\<close>

definition ready_node :: "(example_stat, RtpPacket list, RtpPacket list, nat) RtpRtcp" where
  "ready_node =
     \<lparr>node_state = Ready, observer = True, rtcp_sr_generators = Map.empty,
      tracks = Map.empty, rtp_frame_jitter_buffers = Map.empty,
      rtp_minimal_jitter_buffers = Map.empty, receive_statistics = Map.empty,
      last_sent_rtp_packet = None, last_sent_rtcp_packet = None, trace = []\<rparr>"

definition example_rtp_packet :: "u8 \<Rightarrow> nat \<Rightarrow> RtpPacket" where
  "example_rtp_packet pt payload_size =
     \<lparr>PayloadType = pt, Ssrc = 7, Timestamp = 0, PayloadSize = payload_size, GetData = []\<rparr>"

definition track_of :: "BitstreamFormat \<Rightarrow> MediaTrack" where
  "track_of format = \<lparr>GetOriginBitstream = format, GetTimeBaseDen = 90000\<rparr>"

text \<open>The tick count of a whole number of milliseconds.\<close>

definition ms :: "int \<Rightarrow> time_point" where
  "ms k = k * ticks_per_ms"

text \<open>A generator constructed at tick 0, and the node once started.\<close>

definition fresh_generator :: "nat RtcpSRGenerator" where
  "fresh_generator = RtcpSRGenerator_new (at_instant (ms 0)) 1 90000"

definition started_node :: "(example_stat, RtpPacket list, RtpPacket list, nat) RtpRtcp" where
  "started_node = ready_node\<lparr>node_state := Started\<rparr>"

text \<open>
  A datagram of twelve octets: first octet 128, second octet 96, so an RTP packet of
  payload type 96.
\<close>

definition example_datagram :: bytes where
  "example_datagram = [128, 96, 0, 0, 0, 0, 0, 0, 0, 0, 0, 7]"



definition fir_numbers_sr_params :: "nat sr_params" where
  "fir_numbers_sr_params =
     \<lparr>serialise = (\<lambda>info. case info of
                                FIR_Info fir \<Rightarrow> Some (map snd (FirMessages fir))
                              | _ \<Rightarrow> Some []),
      media_clock = (\<lambda>ts rate. (0, 0))\<rparr>"

section \<open>The Sender Report generator\<close>

lemma elapsed_ms_ms: "elapsed_ms (ms a) (ms b) = word_of_int (b - a)"
proof -
  have "ms b - ms a = (b - a) * ticks_per_ms" by (simp add: ms_def algebra_simps)
  then show ?thesis
    by (simp add: elapsed_ms_def ticks_per_ms_def signed_divide_int_def sgn_mult abs_mult
        sgn_if)
qed

lemma elapsed_ms_exact:
  assumes "since \<le> now" and "now - since < 2 ^ 32 * ticks_per_ms"
  shows "uint (elapsed_ms since now) = (now - since) div ticks_per_ms"
proof -
  have nonneg: "0 \<le> now - since" using assms(1) by simp
  have pos: "0 < ticks_per_ms" by (simp add: ticks_per_ms_def)
  have sd: "(now - since) sdiv ticks_per_ms = (now - since) div ticks_per_ms"
    using nonneg pos by (simp add: signed_divide_int_def sgn_if)
  have lo: "0 \<le> (now - since) div ticks_per_ms"
    using nonneg pos by (simp add: pos_imp_zdiv_nonneg_iff)
  have hi: "(now - since) div ticks_per_ms < 2 ^ 32"
    using assms(2) by (simp add: ticks_per_ms_def)
  show ?thesis
    unfolding elapsed_ms_def sd
    using lo hi by (simp add: uint_word_of_int take_bit_eq_mod)
qed

text \<open>
  As long as less than \<open>2 ^ 32\<close> milliseconds have passed since the generator was made and
  the clock does not run backwards, a report built in an instantaneous call comes more
  than 500 ms after the previous one, and more than 4999 ms after it once 10000 ms have
  passed since creation.
\<close>

lemma sr_cadence_without_wrap:
  assumes order: "created_time g \<le> last_generated_time g" "last_generated_time g \<le> t"
    and no_wrap: "t - created_time g < 2 ^ 32 * ticks_per_ms"
    and due: "sr_is_due (at_instant t) g"
  shows "500 < (t - last_generated_time g) div ticks_per_ms \<and>
         (10000 \<le> (t - created_time g) div ticks_per_ms \<longrightarrow>
            4999 < (t - last_generated_time g) div ticks_per_ms)"
proof -
  have c: "uint (elapsed_ms (created_time g) t) = (t - created_time g) div ticks_per_ms"
    using order no_wrap by (intro elapsed_ms_exact) auto
  have l: "uint (elapsed_ms (last_generated_time g) t) =
      (t - last_generated_time g) div ticks_per_ms"
    using order no_wrap by (intro elapsed_ms_exact) auto
  from due have
    "(uint (elapsed_ms (created_time g) t) < 10000 \<and>
      500 < uint (elapsed_ms (last_generated_time g) t)) \<or>
     4999 < uint (elapsed_ms (last_generated_time g) t)"
    by (simp add: sr_is_due_def at_instant_def GetElapsedTimeMSFromCreated_def
        GetElapsedTimeMSFromRtcpSRGenerated_def word_less_def)
  then show ?thesis unfolding c l by auto
qed

text \<open>
  C2. The claim: however the calls are timed, Sender Reports built after the first 10000
  ms are more than 4999 ms apart. The elapsed times are returned as \<^verbatim>\<open>uint32_t\<close>, so
  \<open>2 ^ 32\<close> ms after creation the time since creation reads as less than 10000 ms
  again. Here a generator made at tick 0 is fed one packet 4294967196 ms later and one
  more 501 ms after that: both calls build a report, 501 ms apart.
\<close>

theorem sr_cadence_wraps_after_49_days:
  "let g0 = fresh_generator;
       g1 = AddRTPPacketAndGenerateRtcpSR example_sr_params (at_instant (ms 4294967196))
              (example_rtp_packet 96 100) g0;
       g2 = AddRTPPacketAndGenerateRtcpSR example_sr_params (at_instant (ms 4294967697))
              (example_rtp_packet 96 100) g1
   in created_time g0 = ms 0 \<and>
      rtcp_generated_count g0 = 0 \<and>
      rtcp_generated_count g1 = 1 \<and> last_generated_time g1 = ms 4294967196 \<and>
      rtcp_generated_count g2 = 2 \<and> last_generated_time g2 = ms 4294967697 \<and>
      ms 4294967697 - ms 4294967196 = ms 501 \<and>
      ms 0 + ms 10000 < ms 4294967196"
  by (simp add: fresh_generator_def RtcpSRGenerator_new_def at_instant_def
      AddRTPPacketAndGenerateRtcpSR_def sr_is_due_def GetElapsedTimeMSFromCreated_def
      GetElapsedTimeMSFromRtcpSRGenerated_def elapsed_ms_ms Let_def example_sr_params_def
      example_rtp_packet_def Build_def)
    (simp add: ms_def ticks_per_ms_def)

lemma sr_is_due_counters [simp]:
  "sr_is_due clk (g\<lparr>packet_count := a, octec_count := b\<rparr>) = sr_is_due clk g"
  by (simp add: sr_is_due_def GetElapsedTimeMSFromCreated_def
      GetElapsedTimeMSFromRtcpSRGenerated_def)

lemma observe_not_due:
  "\<not> sr_is_due clk g \<Longrightarrow>
     AddRTPPacketAndGenerateRtcpSR par clk p g =
       g\<lparr>packet_count := packet_count g + 1,
         octec_count := octec_count g + of_nat (PayloadSize p)\<rparr>"
  by (simp add: AddRTPPacketAndGenerateRtcpSR_def Let_def)

lemma observe_due:
  "sr_is_due clk g \<Longrightarrow>
     AddRTPPacketAndGenerateRtcpSR par clk p g =
       g\<lparr>packet_count := 0, octec_count := 0,
         rtcp_packet := Some (snd (Build (serialise par) (SR
           \<lparr>SenderSsrc = ssrc g,
            Msw = fst (media_clock par (Timestamp p) (codec_rate g)),
            Lsw = snd (media_clock par (Timestamp p) (codec_rate g)),
            SrTimestamp = Timestamp p,
            PacketCount = packet_count g + 1,
            OctetCount = octec_count g + of_nat (PayloadSize p)\<rparr>))),
         last_generated_time := now_line57 clk,
         rtcp_generated_count := rtcp_generated_count g + 1\<rparr>"
  by (simp add: AddRTPPacketAndGenerateRtcpSR_def Let_def split_beta)

text \<open>Calls that build no report only count: the packets and their payload octets.\<close>

lemma observe_all_quiet:
  "\<forall>(clk, p) \<in> set run. \<not> sr_is_due clk g \<Longrightarrow>
     observe_all par run g =
       g\<lparr>packet_count := packet_count g + of_nat (length run),
         octec_count := octec_count g + of_nat (sum_list (map (\<lambda>x. PayloadSize (snd x)) run))\<rparr>"
proof (induction run arbitrary: g)
  case Nil
  then show ?case by simp
next
  case (Cons x run)
  obtain clk p where x: "x = (clk, p)" by (cases x)
  let ?g1 = "g\<lparr>packet_count := packet_count g + 1,
                 octec_count := octec_count g + of_nat (PayloadSize p)\<rparr>"
  from Cons.prems x have quiet: "\<not> sr_is_due clk g" by simp
  from Cons.prems have rest: "\<forall>(clk, p) \<in> set run. \<not> sr_is_due clk ?g1" by auto
  have "observe_all par (x # run) g = observe_all par run ?g1"
    using quiet x by (simp add: observe_not_due)
  also have "\<dots> = ?g1\<lparr>packet_count := packet_count ?g1 + of_nat (length run),
         octec_count := octec_count ?g1 + of_nat (sum_list (map (\<lambda>x. PayloadSize (snd x)) run))\<rparr>"
    using rest by (rule Cons.IH)
  finally show ?case using x by (simp add: ac_simps)
qed

lemma observe_all_append:
  "observe_all par (xs @ ys) g = observe_all par ys (observe_all par xs g)"
  by (induction xs arbitrary: g) auto

text \<open>
  C3. Start from a generator whose two counters are 0, as they are after construction
  and after every report. Let the calls of \<open>run\<close> build no report and let the next call,
  for packet \<open>p\<close>, build one (the condition of lines 20-21 reads the two time stamps
  only, which a call that builds no report leaves alone, so it is stated on the
  generator the run starts from). Then the report waiting in the slot carries as packet count
  the number of packets of \<open>run\<close> and \<open>p\<close>, and as octet count the sum of their payload
  sizes (both as the 32-bit values of the Sender Report), and the same call leaves both
  counters at 0, sets the last-report time to the clock reading of line 57 and adds 1 to
  the count of built reports.
\<close>

theorem sr_counts_and_reset:
  assumes fresh: "packet_count g = 0" "octec_count g = 0"
    and quiet: "\<forall>(c, q) \<in> set run. \<not> sr_is_due c g"
    and due: "sr_is_due clk g"
  shows "pending_sender_report (observe_all par (run @ [(clk, p)]) g) =
           Some \<lparr>SenderSsrc = ssrc g,
                 Msw = fst (media_clock par (Timestamp p) (codec_rate g)),
                 Lsw = snd (media_clock par (Timestamp p) (codec_rate g)),
                 SrTimestamp = Timestamp p,
                 PacketCount = of_nat (length (run @ [(clk, p)])),
                 OctetCount =
                   of_nat (sum_list (map (\<lambda>x. PayloadSize (snd x)) (run @ [(clk, p)])))\<rparr> \<and>
         packet_count (observe_all par (run @ [(clk, p)]) g) = 0 \<and>
         octec_count (observe_all par (run @ [(clk, p)]) g) = 0 \<and>
         last_generated_time (observe_all par (run @ [(clk, p)]) g) = now_line57 clk \<and>
         rtcp_generated_count (observe_all par (run @ [(clk, p)]) g) =
           rtcp_generated_count g + 1"
proof -
  define g1 where "g1 = g\<lparr>packet_count := of_nat (length run),
         octec_count := of_nat (sum_list (map (\<lambda>x. PayloadSize (snd x)) run))\<rparr>"
  have run: "observe_all par run g = g1"
    using observe_all_quiet [OF quiet, of par] fresh by (simp add: g1_def)
  have due1: "sr_is_due clk g1" using due by (simp add: g1_def)
  have last: "observe_all par (run @ [(clk, p)]) g = AddRTPPacketAndGenerateRtcpSR par clk p g1"
    by (simp add: observe_all_append run)
  show ?thesis
    unfolding last observe_due [OF due1]
    by (simp add: g1_def pending_sender_report_def Build_def)
qed

text \<open>
  Three packets of 100, 200 and 50 payload octets at 100, 300 and 501 ms after
  construction: the third call builds a report of 3 packets and 350 octets.
\<close>

theorem sr_counts_and_reset_witness:
  "pending_sender_report
     (observe_all example_sr_params
        ([(at_instant (ms 100), example_rtp_packet 96 100),
          (at_instant (ms 300), example_rtp_packet 96 200)] @
         [(at_instant (ms 501), example_rtp_packet 96 50)])
        fresh_generator) =
     Some \<lparr>SenderSsrc = 1, Msw = 0, Lsw = 0, SrTimestamp = 0, PacketCount = 3,
           OctetCount = 350\<rparr> \<and>
   packet_count
     (observe_all example_sr_params
        ([(at_instant (ms 100), example_rtp_packet 96 100),
          (at_instant (ms 300), example_rtp_packet 96 200)] @
         [(at_instant (ms 501), example_rtp_packet 96 50)])
        fresh_generator) = 0 \<and>
   octec_count
     (observe_all example_sr_params
        ([(at_instant (ms 100), example_rtp_packet 96 100),
          (at_instant (ms 300), example_rtp_packet 96 200)] @
         [(at_instant (ms 501), example_rtp_packet 96 50)])
        fresh_generator) = 0 \<and>
   last_generated_time
     (observe_all example_sr_params
        ([(at_instant (ms 100), example_rtp_packet 96 100),
          (at_instant (ms 300), example_rtp_packet 96 200)] @
         [(at_instant (ms 501), example_rtp_packet 96 50)])
        fresh_generator) = ms 501 \<and>
   rtcp_generated_count
     (observe_all example_sr_params
        ([(at_instant (ms 100), example_rtp_packet 96 100),
          (at_instant (ms 300), example_rtp_packet 96 200)] @
         [(at_instant (ms 501), example_rtp_packet 96 50)])
        fresh_generator) = 1"
proof -
  have quiet: "\<forall>(c, q) \<in> set [(at_instant (ms 100), example_rtp_packet 96 100),
                           (at_instant (ms 300), example_rtp_packet 96 200)].
                 \<not> sr_is_due c fresh_generator"
    by (simp add: fresh_generator_def RtcpSRGenerator_new_def at_instant_def sr_is_due_def
        GetElapsedTimeMSFromCreated_def GetElapsedTimeMSFromRtcpSRGenerated_def
        elapsed_ms_ms)
  have due: "sr_is_due (at_instant (ms 501)) fresh_generator"
    by (simp add: fresh_generator_def RtcpSRGenerator_new_def at_instant_def sr_is_due_def
        GetElapsedTimeMSFromCreated_def GetElapsedTimeMSFromRtcpSRGenerated_def
        elapsed_ms_ms)
  have fresh: "packet_count fresh_generator = 0" "octec_count fresh_generator = 0"
    by (simp_all add: fresh_generator_def RtcpSRGenerator_new_def)
  show ?thesis
    using sr_counts_and_reset [OF fresh quiet due, of example_sr_params
        "example_rtp_packet 96 50"]
    by (simp add: fresh_generator_def RtcpSRGenerator_new_def at_instant_def
        example_sr_params_def example_rtp_packet_def)
qed

section \<open>Registration\<close>

text \<open>
  C5, as the claim states it, fails: in the Ready state \<^verbatim>\<open>AddRtpReceiver\<close> returns false for
  a track whose format takes the \<^verbatim>\<open>default\<close> branch of the \<^verbatim>\<open>switch\<close>.
\<close>

theorem registration_in_ready_counterexample:
  "node_state ready_node = Ready \<and>
   fst (AddRtpReceiver (example_env 0 False True) 96 (track_of (OtherBitstreamFormat 0))
          ready_node) = False"
  by (simp add: ready_node_def AddRtpReceiver_def track_of_def)

text \<open>
  C5, amended. In the Ready state \<^verbatim>\<open>AddRtcpSRGenerator\<close> returns true and has stored a
  new generator under the payload type; \<^verbatim>\<open>AddRtpReceiver\<close>, for a track whose format is
  one of the four supported ones, returns true and has stored the track and a new jitter
  buffer of the format's kind under the payload type. Nothing else of the node changes.
  In every other state both return false and leave the node, with all its tables, as it
  was.
\<close>

theorem registration_by_state:
  "(node_state n = Ready \<longrightarrow>
      AddRtcpSRGenerator env payload_type s rate n =
        (True, n\<lparr>rtcp_sr_generators := (rtcp_sr_generators n)
                     (payload_type \<mapsto> RtcpSRGenerator_new (clock env) s rate)\<rparr>) \<and>
      (GetOriginBitstream track \<in> {H264_RTP_RFC_6184, VP8_RTP_RFC_7741, AAC_MPEG4_GENERIC} \<longrightarrow>
         AddRtpReceiver env payload_type track n =
           (True, n\<lparr>tracks := (tracks n)(payload_type \<mapsto> track),
                    rtp_frame_jitter_buffers := (rtp_frame_jitter_buffers n)
                      (payload_type \<mapsto> new_RtpFrameJitterBuffer (jitter env))\<rparr>)) \<and>
      (GetOriginBitstream track = OPUS_RTP_RFC_7587 \<longrightarrow>
         AddRtpReceiver env payload_type track n =
           (True, n\<lparr>tracks := (tracks n)(payload_type \<mapsto> track),
                    rtp_minimal_jitter_buffers := (rtp_minimal_jitter_buffers n)
                      (payload_type \<mapsto> new_RtpMinimalJitterBuffer (jitter env))\<rparr>))) \<and>
   (node_state n \<noteq> Ready \<longrightarrow>
      AddRtcpSRGenerator env payload_type s rate n = (False, n) \<and>
      AddRtpReceiver env payload_type track n = (False, n))"
proof (intro conjI impI)
  assume ready: "node_state n = Ready"
  show "AddRtcpSRGenerator env payload_type s rate n =
        (True, n\<lparr>rtcp_sr_generators := (rtcp_sr_generators n)
                     (payload_type \<mapsto> RtcpSRGenerator_new (clock env) s rate)\<rparr>)"
    using ready by (simp add: AddRtcpSRGenerator_def)
  show "AddRtpReceiver env payload_type track n =
           (True, n\<lparr>tracks := (tracks n)(payload_type \<mapsto> track),
                    rtp_frame_jitter_buffers := (rtp_frame_jitter_buffers n)
                      (payload_type \<mapsto> new_RtpFrameJitterBuffer (jitter env))\<rparr>)"
    if "GetOriginBitstream track \<in> {H264_RTP_RFC_6184, VP8_RTP_RFC_7741, AAC_MPEG4_GENERIC}"
    using ready that by (auto simp add: AddRtpReceiver_def Let_def)
  show "AddRtpReceiver env payload_type track n =
           (True, n\<lparr>tracks := (tracks n)(payload_type \<mapsto> track),
                    rtp_minimal_jitter_buffers := (rtp_minimal_jitter_buffers n)
                      (payload_type \<mapsto> new_RtpMinimalJitterBuffer (jitter env))\<rparr>)"
    if "GetOriginBitstream track = OPUS_RTP_RFC_7587"
    using ready that by (simp add: AddRtpReceiver_def Let_def)
next
  assume other: "node_state n \<noteq> Ready"
  show "AddRtcpSRGenerator env payload_type s rate n = (False, n)"
    using other by (simp add: AddRtcpSRGenerator_def)
  show "AddRtpReceiver env payload_type track n = (False, n)"
    using other by (simp add: AddRtpReceiver_def)
qed

text \<open>
  On the node with nothing registered: a generator and an Opus track for payload type 96
  are stored in the Ready state and refused once the node is Started.
\<close>

theorem registration_by_state_witness:
  "AddRtcpSRGenerator (example_env 0 False True) 96 1 90000 ready_node =
     (True, ready_node\<lparr>rtcp_sr_generators := [96 \<mapsto> fresh_generator]\<rparr>) \<and>
   AddRtpReceiver (example_env 0 False True) 96 (track_of OPUS_RTP_RFC_7587) ready_node =
     (True, ready_node\<lparr>tracks := [96 \<mapsto> track_of OPUS_RTP_RFC_7587],
                       rtp_minimal_jitter_buffers := [96 \<mapsto> []]\<rparr>) \<and>
   AddRtpReceiver (example_env 0 False True) 97 (track_of VP8_RTP_RFC_7741) ready_node =
     (True, ready_node\<lparr>tracks := [97 \<mapsto> track_of VP8_RTP_RFC_7741],
                       rtp_frame_jitter_buffers := [97 \<mapsto> []]\<rparr>) \<and>
   AddRtcpSRGenerator (example_env 0 False True) 96 1 90000 started_node =
     (False, started_node) \<and>
   AddRtpReceiver (example_env 0 False True) 96 (track_of OPUS_RTP_RFC_7587) started_node =
     (False, started_node)"
  using registration_by_state [of ready_node "example_env 0 False True" 96 1 90000
      "track_of OPUS_RTP_RFC_7587"]
    registration_by_state [of ready_node "example_env 0 False True" 97 1 90000
      "track_of VP8_RTP_RFC_7741"]
    registration_by_state [of started_node "example_env 0 False True" 96 1 90000
      "track_of OPUS_RTP_RFC_7587"]
  by (simp add: ready_node_def started_node_def track_of_def example_env_def
      example_jitter_def fresh_generator_def ms_def)

text \<open>
  C9, as the claim states it, fails: when the payload type was registered before with a
  supported format, the failed call leaves the new track beside the jitter buffer of the
  earlier registration, so a jitter buffer is registered for that payload type.
\<close>

theorem failed_registration_counterexample:
  "fst (AddRtpReceiver (example_env 0 False True) 96 (track_of (OtherBitstreamFormat 0))
          (snd (AddRtpReceiver (example_env 0 False True) 96 (track_of H264_RTP_RFC_6184)
                  ready_node))) = False \<and>
   tracks (snd (AddRtpReceiver (example_env 0 False True) 96 (track_of (OtherBitstreamFormat 0))
          (snd (AddRtpReceiver (example_env 0 False True) 96 (track_of H264_RTP_RFC_6184)
                  ready_node)))) 96 = Some (track_of (OtherBitstreamFormat 0)) \<and>
   rtp_frame_jitter_buffers
     (snd (AddRtpReceiver (example_env 0 False True) 96 (track_of (OtherBitstreamFormat 0))
          (snd (AddRtpReceiver (example_env 0 False True) 96 (track_of H264_RTP_RFC_6184)
                  ready_node)))) 96 = Some []"
  by (simp add: ready_node_def AddRtpReceiver_def track_of_def example_env_def
      example_jitter_def)

text \<open>
  C9, amended. Called in the Ready state with a track whose format is none of the four
  supported ones, \<^verbatim>\<open>AddRtpReceiver\<close> returns false and changes the node in one place only:
  the track table now maps the payload type to the new track. Both jitter buffer tables
  are as before the call, so a payload type that had no jitter buffer before has a track
  and no jitter buffer after.
\<close>

theorem failed_registration_keeps_track:
  assumes "node_state n = Ready"
    and "GetOriginBitstream track \<notin>
           {H264_RTP_RFC_6184, VP8_RTP_RFC_7741, AAC_MPEG4_GENERIC, OPUS_RTP_RFC_7587}"
  shows "AddRtpReceiver env payload_type track n =
           (False, n\<lparr>tracks := (tracks n)(payload_type \<mapsto> track)\<rparr>) \<and>
         (rtp_frame_jitter_buffers n payload_type = None \<and>
          rtp_minimal_jitter_buffers n payload_type = None \<longrightarrow>
            tracks (snd (AddRtpReceiver env payload_type track n)) payload_type = Some track \<and>
            rtp_frame_jitter_buffers (snd (AddRtpReceiver env payload_type track n))
              payload_type = None \<and>
            rtp_minimal_jitter_buffers (snd (AddRtpReceiver env payload_type track n))
              payload_type = None)"
  using assms
  by (cases "GetOriginBitstream track") (simp_all add: AddRtpReceiver_def Let_def)

theorem failed_registration_keeps_track_witness:
  "AddRtpReceiver (example_env 0 False True) 96 (track_of (OtherBitstreamFormat 0)) ready_node =
     (False, ready_node\<lparr>tracks := [96 \<mapsto> track_of (OtherBitstreamFormat 0)]\<rparr>) \<and>
   rtp_frame_jitter_buffers
     (snd (AddRtpReceiver (example_env 0 False True) 96 (track_of (OtherBitstreamFormat 0))
             ready_node)) 96 = None \<and>
   rtp_minimal_jitter_buffers
     (snd (AddRtpReceiver (example_env 0 False True) 96 (track_of (OtherBitstreamFormat 0))
             ready_node)) 96 = None"
  using failed_registration_keeps_track [of ready_node "track_of (OtherBitstreamFormat 0)"
      "example_env 0 False True" 96]
  by (simp add: ready_node_def track_of_def)

section \<open>Classifying inbound datagrams\<close>

lemma GetDataAs_in_range:
  "i < length data \<Longrightarrow>
     GetDataAs data i n = Inr (data ! i, n\<lparr>trace := trace n @ [DatagramByteRead i]\<rparr>)"
  by (simp add: GetDataAs_def)

text \<open>
  C8. While the node is Started, a datagram shorter than \<^verbatim>\<open>RTCP_HEADER_SIZE\<close> is refused:
  the call returns false and the node is as before, its trace too, so no octet of the
  datagram was read and no read went past its end.
\<close>

theorem short_datagram_refused_unread:
  assumes "node_state n = Started" and "length data < RTCP_HEADER_SIZE env"
  shows "OnDataReceivedFromNextNode env from_node data n = Inr (False, n)"
  using assms by (simp add: OnDataReceivedFromNextNode_def classify_def)

text \<open>Datagrams of length 0 and 1, with a header size of 4.\<close>

theorem short_datagram_refused_unread_witness:
  "OnDataReceivedFromNextNode (example_env 0 False True) OtherNode [] started_node =
     Inr (False, started_node) \<and>
   OnDataReceivedFromNextNode (example_env 0 False True) OtherNode [128] started_node =
     Inr (False, started_node)"
  using short_datagram_refused_unread [of started_node "[]" "example_env 0 False True" OtherNode]
    short_datagram_refused_unread [of started_node "[128]" "example_env 0 False True" OtherNode]
  by (simp add: example_env_def started_node_def ready_node_def)

lemma classify_started:
  assumes "node_state n = Started" and "2 \<le> RTCP_HEADER_SIZE env"
    and "RTCP_HEADER_SIZE env \<le> length data"
  shows "classify env data n =
     (if 128 \<le> data ! 0 \<and> data ! 0 \<le> 191
      then if 192 \<le> data ! 1 \<and> data ! 1 \<le> 223
           then Inr (To_OnRtcpReceived,
                     n\<lparr>trace := trace n @ [DatagramByteRead 0, DatagramByteRead 1]\<rparr>)
           else Inr (To_OnRtpReceived,
                     n\<lparr>trace := trace n @ [DatagramByteRead 0, DatagramByteRead 1]\<rparr>)
      else Inr (Refused, n\<lparr>trace := trace n @ [DatagramByteRead 0]\<rparr>))"
proof -
  have len: "0 < length data" "1 < length data" "\<not> length data < RTCP_HEADER_SIZE env"
    using assms by linarith+
  have first: "GetDataAs data 0 n = Inr (data ! 0, n\<lparr>trace := trace n @ [DatagramByteRead 0]\<rparr>)"
    using len(1) by (rule GetDataAs_in_range)
  have second: "GetDataAs data (Suc 0) (n\<lparr>trace := trace n @ [DatagramByteRead 0]\<rparr>) =
      Inr (data ! Suc 0,
           n\<lparr>trace := trace n @ [DatagramByteRead 0, DatagramByteRead (Suc 0)]\<rparr>)"
    using len(2) by (simp add: GetDataAs_in_range)
  show ?thesis
    unfolding classify_def using assms(1) len(3) by (simp add: first second)
qed

text \<open>
  C1, as the claim states it, fails: a datagram of four octets with first octet 128 and
  second octet 200 reaches no handler when the node is Ready; the state check of lines
  177-181 returns false first.
\<close>

theorem classification_needs_started_counterexample:
  "RTCP_HEADER_SIZE (example_env 0 False True) \<le> length [128, 200, 0, 0 :: u8] \<and>
   (128 :: u8) \<le> [128, 200, 0, 0] ! 0 \<and> [128, 200, 0, 0 :: u8] ! 0 \<le> 191 \<and>
   (192 :: u8) \<le> [128, 200, 0, 0] ! 1 \<and> [128, 200, 0, 0 :: u8] ! 1 \<le> 223 \<and>
   route_of (classify (example_env 0 False True) [128, 200, 0, 0] ready_node) = Inr Refused \<and>
   OnDataReceivedFromNextNode (example_env 0 False True) OtherNode [128, 200, 0, 0] ready_node =
     Inr (False, ready_node)"
  by (simp add: example_env_def ready_node_def classify_def route_of_def
      OnDataReceivedFromNextNode_def)

text \<open>
  C1, amended. While the node is Started, a datagram at least \<^verbatim>\<open>RTCP_HEADER_SIZE\<close> long
  (a header size of at least 2, so that the first two octets exist) goes to
  \<^verbatim>\<open>OnRtcpReceived\<close> exactly when octet 0 is in [128,191] and octet 1 in [192,223], goes to
  \<^verbatim>\<open>OnRtpReceived\<close> exactly when octet 0 is in [128,191] and octet 1 is not in [192,223],
  and the call returns false when octet 0 is outside [128,191]. The call returns what
  the handler returns.
\<close>

theorem classification_while_started:
  assumes "node_state n = Started" and "2 \<le> RTCP_HEADER_SIZE env"
    and "RTCP_HEADER_SIZE env \<le> length data"
  shows "((route_of (classify env data n) = Inr To_OnRtcpReceived) =
            (128 \<le> data ! 0 \<and> data ! 0 \<le> 191 \<and> 192 \<le> data ! 1 \<and> data ! 1 \<le> 223)) \<and>
         ((route_of (classify env data n) = Inr To_OnRtpReceived) =
            (128 \<le> data ! 0 \<and> data ! 0 \<le> 191 \<and> \<not> (192 \<le> data ! 1 \<and> data ! 1 \<le> 223))) \<and>
         OnDataReceivedFromNextNode env from_node data n =
           (if 128 \<le> data ! 0 \<and> data ! 0 \<le> 191
            then if 192 \<le> data ! 1 \<and> data ! 1 \<le> 223
                 then OnRtcpReceived env data
                        (n\<lparr>trace := trace n @ [DatagramByteRead 0, DatagramByteRead 1]\<rparr>)
                 else OnRtpReceived env data
                        (n\<lparr>trace := trace n @ [DatagramByteRead 0, DatagramByteRead 1]\<rparr>)
            else Inr (False, n\<lparr>trace := trace n @ [DatagramByteRead 0]\<rparr>))"
  unfolding OnDataReceivedFromNextNode_def classify_started [OF assms]
  by (simp add: route_of_def)

text \<open>The six datagrams of the specification's classification table.\<close>

theorem classification_while_started_witness:
  "route_of (classify (example_env 0 False True) [191, 192, 0, 0] started_node) =
     Inr To_OnRtcpReceived \<and>
   route_of (classify (example_env 0 False True) [191, 223, 0, 0] started_node) =
     Inr To_OnRtcpReceived \<and>
   route_of (classify (example_env 0 False True) [128, 191, 0, 0] started_node) =
     Inr To_OnRtpReceived \<and>
   route_of (classify (example_env 0 False True) [191, 224, 0, 0] started_node) =
     Inr To_OnRtpReceived \<and>
   OnDataReceivedFromNextNode (example_env 0 False True) OtherNode [127, 200, 0, 0]
     started_node = Inr (False, started_node\<lparr>trace := [DatagramByteRead 0]\<rparr>) \<and>
   OnDataReceivedFromNextNode (example_env 0 False True) OtherNode [192, 200, 0, 0]
     started_node = Inr (False, started_node\<lparr>trace := [DatagramByteRead 0]\<rparr>)"
  using classification_while_started [of started_node "example_env 0 False True"
      "[191, 192, 0, 0]" OtherNode]
    classification_while_started [of started_node "example_env 0 False True"
      "[191, 223, 0, 0]" OtherNode]
    classification_while_started [of started_node "example_env 0 False True"
      "[128, 191, 0, 0]" OtherNode]
    classification_while_started [of started_node "example_env 0 False True"
      "[191, 224, 0, 0]" OtherNode]
    classification_while_started [of started_node "example_env 0 False True"
      "[127, 200, 0, 0]" OtherNode]
    classification_while_started [of started_node "example_env 0 False True"
      "[192, 200, 0, 0]" OtherNode]
  by (simp add: example_env_def started_node_def ready_node_def)

section \<open>Sending RTP and Sender Reports\<close>







section \<open>Full Intra Requests\<close>

lemma SendFir_known:
  assumes "receive_statistics n media_ssrc = Some stat"
  shows "SendFir env media_ssrc n =
     (next_node env (trace n @ [Sent Rtcp (serialise (sr env) (FIR_Info
         \<lparr>SrcSsrc = GetReceiverSSRC (stats env) stat,
          FirMessages =
            [(media_ssrc, of_nat (GetNumberOfFirRequests (stats env) stat mod 256))]\<rparr>))]),
      n\<lparr>receive_statistics :=
          (receive_statistics n)(media_ssrc \<mapsto> OnFirRequested (stats env) stat),
        last_sent_rtcp_packet := Some
          \<lparr>BuiltFrom = FIR_Info
             \<lparr>SrcSsrc = GetReceiverSSRC (stats env) stat,
              FirMessages =
                [(media_ssrc, of_nat (GetNumberOfFirRequests (stats env) stat mod 256))]\<rparr>,
           RtcpData = serialise (sr env) (FIR_Info
             \<lparr>SrcSsrc = GetReceiverSSRC (stats env) stat,
              FirMessages =
                [(media_ssrc, of_nat (GetNumberOfFirRequests (stats env) stat mod 256))]\<rparr>)\<rparr>,
        trace := trace n @ [Sent Rtcp (serialise (sr env) (FIR_Info
         \<lparr>SrcSsrc = GetReceiverSSRC (stats env) stat,
          FirMessages =
            [(media_ssrc, of_nat (GetNumberOfFirRequests (stats env) stat mod 256))]\<rparr>))]\<rparr>)"
  using assms by (simp add: SendFir_def SendDataToNextNode_def Build_def Let_def)

lemma SendFir_times_statistics:
  assumes "receive_statistics n media_ssrc = Some stat"
  shows "receive_statistics (SendFir_times k env media_ssrc n) media_ssrc =
           Some ((OnFirRequested (stats env) ^^ k) stat)"
  using assms
proof (induction k arbitrary: n stat)
  case 0
  then show ?case by simp
next
  case (Suc k)
  have "receive_statistics (snd (SendFir env media_ssrc n)) media_ssrc =
          Some (OnFirRequested (stats env) stat)"
    by (simp add: SendFir_known [OF Suc.prems])
  from Suc.IH [OF this] show ?case by (simp add: funpow_swap1)
qed

lemma SendFir_times_Suc:
  "SendFir_times (Suc k) env media_ssrc n =
     snd (SendFir env media_ssrc (SendFir_times k env media_ssrc n))"
  by (induction k arbitrary: n) simp_all

lemma fir_counter_after:
  assumes "\<forall>s. GetNumberOfFirRequests ops (OnFirRequested ops s) mod 256 =
                (GetNumberOfFirRequests ops s + 1) mod 256"
  shows "GetNumberOfFirRequests ops ((OnFirRequested ops ^^ k) stat) mod 256 =
           (GetNumberOfFirRequests ops stat + k) mod 256"
proof (induction k)
  case 0
  then show ?case by simp
next
  case (Suc k)
  have "GetNumberOfFirRequests ops ((OnFirRequested ops ^^ Suc k) stat) mod 256 =
          (GetNumberOfFirRequests ops ((OnFirRequested ops ^^ k) stat) + 1) mod 256"
    using assms by simp
  also have "\<dots> =
      (GetNumberOfFirRequests ops ((OnFirRequested ops ^^ k) stat) mod 256 + 1) mod 256"
    by presburger
  also have "\<dots> = ((GetNumberOfFirRequests ops stat + k) mod 256 + 1) mod 256"
    by (simp add: Suc.IH)
  also have "\<dots> = (GetNumberOfFirRequests ops stat + Suc k) mod 256"
    by presburger
  finally show ?case .
qed

lemma of_nat_mod_256: "(of_nat (a mod 256) :: u8) = of_nat a"
  by (simp add: word_of_nat_eq_iff take_bit_eq_mod)

text \<open>
  C6. Let the table hold an entry for the SSRC, and let \<^verbatim>\<open>OnFirRequested\<close> add 1 to what
  \<^verbatim>\<open>GetNumberOfFirRequests\<close> returns (modulo 256 is all that is needed, so a counter of
  any unsigned width is covered). Then call number \<open>k + 1\<close> in a row of \<^verbatim>\<open>SendFir\<close> calls
  for that SSRC builds a FIR from the receiver's SSRC with one message: the media SSRC
  and the sequence number of the first call plus \<open>k\<close>, as an octet (one more at every
  call, 0 after 255). The call sends the data built from that FIR to the node below as
  its only event and returns the answer to that send; it stores the packet as last sent
  RTCP packet and has \<^verbatim>\<open>OnFirRequested\<close> applied to the entry once more; nothing else
  of the node changes. For an SSRC without an entry \<^verbatim>\<open>SendFir\<close> returns false and
  changes nothing.
\<close>

theorem fir_sequence_numbers:
  assumes known: "receive_statistics n media_ssrc = Some stat"
    and counts: "\<forall>s. GetNumberOfFirRequests (stats env) (OnFirRequested (stats env) s) mod 256 =
                   (GetNumberOfFirRequests (stats env) s + 1) mod 256"
  shows "(let before = SendFir_times k env media_ssrc n;
              fir = FIR_Info
                \<lparr>SrcSsrc = GetReceiverSSRC (stats env) ((OnFirRequested (stats env) ^^ k) stat),
                 FirMessages =
                   [(media_ssrc, of_nat (GetNumberOfFirRequests (stats env) stat) + of_nat k)]\<rparr>;
              sent = trace before @ [Sent Rtcp (serialise (sr env) fir)]
          in SendFir env media_ssrc before =
               (next_node env sent,
                before\<lparr>receive_statistics := (receive_statistics before)
                           (media_ssrc \<mapsto> (OnFirRequested (stats env) ^^ Suc k) stat),
                        last_sent_rtcp_packet :=
                          Some \<lparr>BuiltFrom = fir, RtcpData = serialise (sr env) fir\<rparr>,
                        trace := sent\<rparr>)) \<and>
         last_sent_fir_messages (SendFir_times (Suc k) env media_ssrc n) =
           [(media_ssrc, of_nat (GetNumberOfFirRequests (stats env) stat) + of_nat k)] \<and>
         (receive_statistics m other = None \<longrightarrow> SendFir env other m = (False, m))"
proof -
  let ?st = "(OnFirRequested (stats env) ^^ k) stat"
  have at_k: "receive_statistics (SendFir_times k env media_ssrc n) media_ssrc = Some ?st"
    by (rule SendFir_times_statistics [OF known])
  have "(of_nat (GetNumberOfFirRequests (stats env) ?st mod 256) :: u8) =
      of_nat ((GetNumberOfFirRequests (stats env) stat + k) mod 256)"
    using fir_counter_after [OF counts, of k stat] by simp
  also have "\<dots> = of_nat (GetNumberOfFirRequests (stats env) stat) + of_nat k"
    by (simp add: of_nat_mod_256)
  finally have number: "(of_nat (GetNumberOfFirRequests (stats env) ?st mod 256) :: u8) =
      of_nat (GetNumberOfFirRequests (stats env) stat) + of_nat k" .
  have call: "let before = SendFir_times k env media_ssrc n;
              fir = FIR_Info
                \<lparr>SrcSsrc = GetReceiverSSRC (stats env) ?st,
                 FirMessages =
                   [(media_ssrc, of_nat (GetNumberOfFirRequests (stats env) stat) + of_nat k)]\<rparr>;
              sent = trace before @ [Sent Rtcp (serialise (sr env) fir)]
          in SendFir env media_ssrc before =
               (next_node env sent,
                before\<lparr>receive_statistics := (receive_statistics before)
                           (media_ssrc \<mapsto> (OnFirRequested (stats env) ^^ Suc k) stat),
                        last_sent_rtcp_packet :=
                          Some \<lparr>BuiltFrom = fir, RtcpData = serialise (sr env) fir\<rparr>,
                        trace := sent\<rparr>)"
    unfolding Let_def SendFir_known [OF at_k] number by simp
  have slot: "last_sent_fir_messages (SendFir_times (Suc k) env media_ssrc n) =
          [(media_ssrc, of_nat (GetNumberOfFirRequests (stats env) stat) + of_nat k)]"
    unfolding SendFir_times_Suc SendFir_known [OF at_k] number
    by (simp add: last_sent_fir_messages_def)
  have unknown: "receive_statistics m other = None \<longrightarrow> SendFir env other m = (False, m)"
    by (simp add: SendFir_def)
  from call slot unknown show ?thesis by blast
qed

text \<open>
  An entry that has counted 254 requests and a \<^verbatim>\<open>Build\<close> whose data are the sequence
  numbers: the first three calls send 254, 255 and 0. A node without an entry for SSRC 9
  refuses.
\<close>

theorem fir_sequence_numbers_witness:
  "SendFir ((example_env 0 False True)\<lparr>sr := fir_numbers_sr_params\<rparr>) 7
     (started_node\<lparr>receive_statistics := [7 \<mapsto>
        \<lparr>es_payload_type = 96, es_media_ssrc = 7, es_clock_rate = 90000, es_packets = 1,
         es_fir_requests = 254, es_sender_reports = 0\<rparr>]\<rparr>) =
     (True,
      started_node
        \<lparr>receive_statistics := [7 \<mapsto>
           \<lparr>es_payload_type = 96, es_media_ssrc = 7, es_clock_rate = 90000, es_packets = 1,
            es_fir_requests = 255, es_sender_reports = 0\<rparr>],
         last_sent_rtcp_packet := Some
           \<lparr>BuiltFrom = FIR_Info \<lparr>SrcSsrc = 1, FirMessages = [(7, 254)]\<rparr>,
            RtcpData = Some [254]\<rparr>,
         trace := [Sent Rtcp (Some [254])]\<rparr>) \<and>
   trace (SendFir_times 3 ((example_env 0 False True)\<lparr>sr := fir_numbers_sr_params\<rparr>) 7
     (started_node\<lparr>receive_statistics := [7 \<mapsto>
        \<lparr>es_payload_type = 96, es_media_ssrc = 7, es_clock_rate = 90000, es_packets = 1,
         es_fir_requests = 254, es_sender_reports = 0\<rparr>]\<rparr>)) =
     [Sent Rtcp (Some [254]), Sent Rtcp (Some [255]), Sent Rtcp (Some [0])] \<and>
   last_sent_fir_messages
     (SendFir_times 3 ((example_env 0 False True)\<lparr>sr := fir_numbers_sr_params\<rparr>) 7
     (started_node\<lparr>receive_statistics := [7 \<mapsto>
        \<lparr>es_payload_type = 96, es_media_ssrc = 7, es_clock_rate = 90000, es_packets = 1,
         es_fir_requests = 254, es_sender_reports = 0\<rparr>]\<rparr>)) = [(7, 0)] \<and>
   SendFir ((example_env 0 False True)\<lparr>sr := fir_numbers_sr_params\<rparr>) 9 started_node =
     (False, started_node)"
proof -
  let ?stat = "\<lparr>es_payload_type = 96, es_media_ssrc = 7, es_clock_rate = 90000,
                 es_packets = 1, es_fir_requests = 254, es_sender_reports = 0\<rparr>"
  let ?n = "started_node\<lparr>receive_statistics := [7 \<mapsto> ?stat]\<rparr>"
  let ?env = "(example_env 0 False True)\<lparr>sr := fir_numbers_sr_params\<rparr>"
  have known: "receive_statistics ?n 7 = Some ?stat" by simp
  have counts: "\<forall>s. GetNumberOfFirRequests (stats ?env) (OnFirRequested (stats ?env) s) mod 256 =
                   (GetNumberOfFirRequests (stats ?env) s + 1) mod 256"
    by (simp add: example_env_def example_stats_def)
  have none: "receive_statistics started_node 9 = None"
    by (simp add: started_node_def ready_node_def)
  have env: "GetNumberOfFirRequests (stats ?env) ?stat = 254"
    "GetReceiverSSRC (stats ?env) s = 1"
    "OnFirRequested (stats ?env) s = s\<lparr>es_fir_requests := es_fir_requests s + 1\<rparr>"
    "next_node ?env tr = True"
    "serialise (sr ?env) (FIR_Info \<lparr>SrcSsrc = a, FirMessages = [(b, c)]\<rparr>) = Some [c]"
    for s tr a b c
    by (simp_all add: example_env_def example_stats_def fir_numbers_sr_params_def)
  have octets: "(of_nat 254 + of_nat 0 :: u8) = 254" "(of_nat 254 + of_nat 1 :: u8) = 255"
    "(of_nat 254 + of_nat 2 :: u8) = 0"
    by simp_all
  have start: "trace ?n = []" "SendFir_times 0 ?env 7 ?n = ?n"
    by (simp_all add: started_node_def ready_node_def)
  have call1: "SendFir ?env 7 ?n =
     (True, ?n\<lparr>receive_statistics := (receive_statistics ?n)(7 \<mapsto> ?stat\<lparr>es_fir_requests := 255\<rparr>),
               last_sent_rtcp_packet := Some
                 \<lparr>BuiltFrom = FIR_Info \<lparr>SrcSsrc = 1, FirMessages = [(7, 254)]\<rparr>,
                  RtcpData = Some [254]\<rparr>,
               trace := [Sent Rtcp (Some [254])]\<rparr>)"
    using fir_sequence_numbers [OF known counts, of 0 started_node 9]
    unfolding Let_def start env octets by simp
  have trace1: "trace (SendFir_times (Suc 0) ?env 7 ?n) = [Sent Rtcp (Some [254])]"
    unfolding SendFir_times_Suc start call1 by simp
  have call2: "trace (snd (SendFir ?env 7 (SendFir_times (Suc 0) ?env 7 ?n))) =
      [Sent Rtcp (Some [254]), Sent Rtcp (Some [255])]"
    using fir_sequence_numbers [OF known counts, of "Suc 0" started_node 9]
    unfolding Let_def env trace1 by (simp add: octets)
  have trace2: "trace (SendFir_times (Suc (Suc 0)) ?env 7 ?n) =
      [Sent Rtcp (Some [254]), Sent Rtcp (Some [255])]"
    using call2 unfolding SendFir_times_Suc [of "Suc 0"] .
  have call3: "trace (snd (SendFir ?env 7 (SendFir_times (Suc (Suc 0)) ?env 7 ?n))) =
      [Sent Rtcp (Some [254]), Sent Rtcp (Some [255]), Sent Rtcp (Some [0])] \<and>
    last_sent_fir_messages (SendFir_times (Suc (Suc (Suc 0))) ?env 7 ?n) = [(7, 0)]"
    using fir_sequence_numbers [OF known counts, of "Suc (Suc 0)" started_node 9]
    unfolding Let_def env trace2 by (simp add: octets numeral_2_eq_2 [symmetric])
  have three: "(3 :: nat) = Suc (Suc (Suc 0))" by simp
  have trace3: "trace (SendFir_times 3 ?env 7 ?n) =
      [Sent Rtcp (Some [254]), Sent Rtcp (Some [255]), Sent Rtcp (Some [0])]"
    and slot3: "last_sent_fir_messages (SendFir_times 3 ?env 7 ?n) = [(7, 0)]"
    using call3 unfolding three SendFir_times_Suc [of "Suc (Suc 0)"] by blast+
  have refused: "SendFir ?env 9 started_node = (False, started_node)"
    using fir_sequence_numbers [OF known counts, of 0 started_node 9] none by blast
  have node1: "?n\<lparr>receive_statistics := (receive_statistics ?n)(7 \<mapsto> ?stat\<lparr>es_fir_requests := 255\<rparr>),
               last_sent_rtcp_packet := Some
                 \<lparr>BuiltFrom = FIR_Info \<lparr>SrcSsrc = 1, FirMessages = [(7, 254)]\<rparr>,
                  RtcpData = Some [254]\<rparr>,
               trace := [Sent Rtcp (Some [254])]\<rparr> =
      started_node
        \<lparr>receive_statistics := [7 \<mapsto> ?stat\<lparr>es_fir_requests := 255\<rparr>],
         last_sent_rtcp_packet := Some
           \<lparr>BuiltFrom = FIR_Info \<lparr>SrcSsrc = 1, FirMessages = [(7, 254)]\<rparr>,
            RtcpData = Some [254]\<rparr>,
         trace := [Sent Rtcp (Some [254])]\<rparr>"
    by simp
  show ?thesis
    using call1 trace3 slot3 refused unfolding node1 by simp
qed

section \<open>The lifecycle check of the hot path\<close>

text \<open>
  \<^verbatim>\<open>SendRtpPacket\<close> and the two \<^verbatim>\<open>OnDataReceived\<close> functions return false and leave the node
  as it was unless the node is Started.
\<close>

lemma refused_unless_started:
  assumes "node_state n \<noteq> Started"
  shows "SendRtpPacket env p n = Inr (False, n)"
    and "OnDataReceivedFromNextNode env from_node data n = Inr (False, n)"
    and "OnDataReceivedFromPrevNode env from_node data n = (False, n)"
  using assms
  by (simp_all add: SendRtpPacket_def OnDataReceivedFromNextNode_def classify_def
      OnDataReceivedFromPrevNode_def)

text \<open>
  C4. The claim: every hot-path operation, \<^verbatim>\<open>SendFir\<close> among them, returns false and
  changes nothing unless the node is Started. \<^verbatim>\<open>SendFir\<close> has no state check. Here a
  node registers an H264 track for payload type 96, starts, receives one RTP datagram
  of SSRC 7 and stops; \<^verbatim>\<open>SendFir(7)\<close> on the stopped node returns true, stores a FIR as
  last sent RTCP packet, sends it down and counts the request in the entry.
\<close>

theorem send_fir_after_stop:
  "case OnDataReceivedFromNextNode (example_env 0 False True) OtherNode example_datagram
          (snd (Node_Start (snd (AddRtpReceiver (example_env 0 False True) 96
                  (track_of H264_RTP_RFC_6184) ready_node)))) of
     Inl f \<Rightarrow> False
   | Inr (received, n) \<Rightarrow>
       received \<and>
       node_state (snd (Stop n)) = Stopped \<and>
       last_sent_rtcp_packet (snd (Stop n)) = None \<and>
       map_option es_fir_requests (receive_statistics (snd (Stop n)) 7) = Some 0 \<and>
       fst (SendFir (example_env 0 False True) 7 (snd (Stop n))) = True \<and>
       last_sent_fir_messages (snd (SendFir (example_env 0 False True) 7 (snd (Stop n)))) =
         [(7, 0)] \<and>
       trace (snd (SendFir (example_env 0 False True) 7 (snd (Stop n)))) =
         trace (snd (Stop n)) @ [Sent Rtcp (Some [])] \<and>
       map_option es_fir_requests
         (receive_statistics (snd (SendFir (example_env 0 False True) 7 (snd (Stop n)))) 7) =
         Some 1"
  by (simp add: example_env_def example_stats_def example_jitter_def example_parse_rtp_def
      example_sr_params_def example_datagram_def ready_node_def track_of_def
      AddRtpReceiver_def Node_Start_def Node_Stop_def Stop_def
      OnDataReceivedFromNextNode_def classify_def GetDataAs_def OnRtpReceived_def
      update_statistics_and_report_def jitter_buffer_type_def SendFir_def
      SendDataToNextNode_def Build_def last_sent_fir_messages_def Let_def)

section \<open>Receiving RTP\<close>

lemma update_statistics_and_report_tables:
  "tracks (update_statistics_and_report env packet track n) = tracks n"
  "rtp_frame_jitter_buffers (update_statistics_and_report env packet track n) =
     rtp_frame_jitter_buffers n"
  "rtp_minimal_jitter_buffers (update_statistics_and_report env packet track n) =
     rtp_minimal_jitter_buffers n"
  by (simp_all add: update_statistics_and_report_def SendDataToNextNode_def Let_def
      split_beta)

text \<open>After lines 244-273 the table has an entry for the packet's SSRC.\<close>

lemma update_statistics_and_report_entry:
  "receive_statistics (update_statistics_and_report env packet track n) (Ssrc packet) \<noteq> None"
  by (simp add: update_statistics_and_report_def SendDataToNextNode_def Let_def split_beta)

text \<open>
  The statistics and the Receiver Report come before the jitter buffer is looked up: with
  a track registered and no jitter buffer found, the node is left as lines 244-273 made
  it. The call returns false when the track's format selects a kind of jitter buffer
  (lines 297 and 340) and true when it selects none (line 360).
\<close>

lemma OnRtpReceived_without_jitter_buffer:
  assumes "tracks n (PayloadType (parse_rtp env data)) = Some track"
    and "rtp_frame_jitter_buffers n (PayloadType (parse_rtp env data)) = None"
    and "rtp_minimal_jitter_buffers n (PayloadType (parse_rtp env data)) = None"
  shows "OnRtpReceived env data n =
     Inr (jitter_buffer_type (GetOriginBitstream track) \<noteq> 1 \<and>
          jitter_buffer_type (GetOriginBitstream track) \<noteq> 2,
          update_statistics_and_report env (parse_rtp env data) track n)"
  using assms
  by (simp add: OnRtpReceived_def Let_def update_statistics_and_report_tables)

text \<open>
  C10. The claim: a packet whose payload type has a track and no matching jitter buffer
  changes the statistics, may send a Receiver Report, and the call returns failure. Here
  a node registers, for payload type 96, a track of a format outside the four supported
  ones (the call returns false and the track stays), starts, and receives one RTP
  datagram of that payload type: the entry of SSRC 7 is made and counts the packet, a
  Receiver Report is sent down, no jitter buffer exists for payload type 96, and the
  call returns true.
\<close>

theorem rtp_without_jitter_buffer_returns_true:
  "fst (AddRtpReceiver (example_env 0 True True) 96 (track_of (OtherBitstreamFormat 0))
          ready_node) = False \<and>
   (case OnDataReceivedFromNextNode (example_env 0 True True) OtherNode example_datagram
           (snd (Node_Start (snd (AddRtpReceiver (example_env 0 True True) 96
                   (track_of (OtherBitstreamFormat 0)) ready_node)))) of
      Inl f \<Rightarrow> False
    | Inr (received, n) \<Rightarrow>
        received = True \<and>
        tracks n 96 = Some (track_of (OtherBitstreamFormat 0)) \<and>
        rtp_frame_jitter_buffers n 96 = None \<and>
        rtp_minimal_jitter_buffers n 96 = None \<and>
        map_option es_packets (receive_statistics n 7) = Some 1 \<and>
        map_option BuiltFrom (last_sent_rtcp_packet n) =
          Some (RR \<lparr>RtpPayloadType = 96, RrSenderSsrc = 1, ReportBlocks = [1]\<rparr>) \<and>
        trace n = [DatagramByteRead 0, DatagramByteRead 1, Sent Rtcp (Some [])])"
  by (simp add: example_env_def example_stats_def example_jitter_def example_parse_rtp_def
      example_sr_params_def example_datagram_def ready_node_def track_of_def
      AddRtpReceiver_def Node_Start_def
      OnDataReceivedFromNextNode_def classify_def GetDataAs_def OnRtpReceived_def
      update_statistics_and_report_def jitter_buffer_type_def
      SendDataToNextNode_def Build_def Let_def)

end
